theory Spec2Isabelle
  imports Complex_Main
begin

section \<open>Reprojection residual functors of the bundle adjustment\<close>

text \<open>
  The header \<^verbatim>\<open>sfm_data_BA_ceres_camera_functor.hpp\<close> declares four cost functors. Each
  one stores a 2D observation and its \<^verbatim>\<open>operator()\<close> maps an intrinsics block, an
  extrinsics block and a 3D point to a 2D residual. The call operators are templates over
  a scalar type \<^verbatim>\<open>T\<close>; they are embedded here at \<^verbatim>\<open>T = double\<close>, with the special values
  and the overflow of that type and without its rounding.
\<close>

subsection \<open>Scalars\<close>

text \<open>
  A scalar is a finite number, one of the two infinities, or a NaN. The result of an
  operation on finite numbers overflows to the infinity of its sign when it lies beyond
  the largest finite double, \<open>DBL_MAX = 2 ^ 1024 - 2 ^ 971\<close>; up to that bound it is kept
  exact, so rounding and underflow are outside this model. The infinities and NaN follow
  the IEEE 754 rules: \<open>\<infinity> - \<infinity>\<close>, \<open>0 * \<infinity>\<close>, \<open>\<infinity> / \<infinity>\<close> and \<open>0 / 0\<close> are NaN, a non-zero
  number over zero is the infinity of its sign, and NaN propagates. The two zeros of the
  format are not told apart: the functors divide once, the depth they divide by is a sum
  whose terms are read from the blocks, and nothing divides by a later result.
\<close>

definition DBL_MAX :: real where
  "DBL_MAX = 2 ^ 1024 - 2 ^ 971"

datatype T = Fin real | PInf | NInf | NaN

definition round_T :: "real \<Rightarrow> T" where
  "round_T r = (if DBL_MAX < r then PInf else if r < - DBL_MAX then NInf else Fin r)"

definition inf_of_sign :: "real \<Rightarrow> T" where
  "inf_of_sign s = (if s = 0 then NaN else if 0 < s then PInf else NInf)"

instantiation T :: "{uminus, plus, minus, times, inverse}"
begin

definition uminus_T :: "T \<Rightarrow> T" where
  "uminus_T a = (case a of Fin x \<Rightarrow> Fin (- x) | PInf \<Rightarrow> NInf | NInf \<Rightarrow> PInf | NaN \<Rightarrow> NaN)"

definition plus_T :: "T \<Rightarrow> T \<Rightarrow> T" where
  "plus_T a b =
     (case a of
        Fin x \<Rightarrow> (case b of Fin y \<Rightarrow> round_T (x + y) | PInf \<Rightarrow> PInf | NInf \<Rightarrow> NInf
                   | NaN \<Rightarrow> NaN)
      | PInf \<Rightarrow> (case b of Fin y \<Rightarrow> PInf | PInf \<Rightarrow> PInf | NInf \<Rightarrow> NaN | NaN \<Rightarrow> NaN)
      | NInf \<Rightarrow> (case b of Fin y \<Rightarrow> NInf | PInf \<Rightarrow> NaN | NInf \<Rightarrow> NInf | NaN \<Rightarrow> NaN)
      | NaN \<Rightarrow> NaN)"

definition minus_T :: "T \<Rightarrow> T \<Rightarrow> T" where
  "minus_T a b = plus a (uminus b)"

definition times_T :: "T \<Rightarrow> T \<Rightarrow> T" where
  "times_T a b =
     (case a of
        Fin x \<Rightarrow> (case b of Fin y \<Rightarrow> round_T (x * y) | PInf \<Rightarrow> inf_of_sign x
                   | NInf \<Rightarrow> inf_of_sign (- x) | NaN \<Rightarrow> NaN)
      | PInf \<Rightarrow> (case b of Fin y \<Rightarrow> inf_of_sign y | PInf \<Rightarrow> PInf | NInf \<Rightarrow> NInf
                  | NaN \<Rightarrow> NaN)
      | NInf \<Rightarrow> (case b of Fin y \<Rightarrow> inf_of_sign (- y) | PInf \<Rightarrow> NInf | NInf \<Rightarrow> PInf
                  | NaN \<Rightarrow> NaN)
      | NaN \<Rightarrow> NaN)"

definition divide_T :: "T \<Rightarrow> T \<Rightarrow> T" where
  "divide_T a b =
     (case a of
        Fin x \<Rightarrow> (case b of Fin y \<Rightarrow> (if y = 0 then inf_of_sign x else round_T (x / y))
                   | PInf \<Rightarrow> Fin 0 | NInf \<Rightarrow> Fin 0 | NaN \<Rightarrow> NaN)
      | PInf \<Rightarrow> (case b of Fin y \<Rightarrow> (if 0 \<le> y then PInf else NInf) | PInf \<Rightarrow> NaN
                  | NInf \<Rightarrow> NaN | NaN \<Rightarrow> NaN)
      | NInf \<Rightarrow> (case b of Fin y \<Rightarrow> (if 0 \<le> y then NInf else PInf) | PInf \<Rightarrow> NaN
                  | NInf \<Rightarrow> NaN | NaN \<Rightarrow> NaN)
      | NaN \<Rightarrow> NaN)"

definition inverse_T :: "T \<Rightarrow> T" where
  "inverse_T a = divide (Fin 1) a"

instance ..

end

subsection \<open>The rotation primitive\<close>

text \<open>
  Modelled from the spec: \<^verbatim>\<open>ceres::AngleAxisRotatePoint\<close> comes from the header
  \<^verbatim>\<open>ceres/rotation.h\<close>, which the functors include and which is not among the sources at
  hand. The specification gives Rodrigues' formula: with \<open>\<theta>\<close> the norm of the
  axis-angle vector and \<open>a\<close> the unit axis, the rotated point is
  \<open>p cos \<theta> + (a \<times> p) sin \<theta> + a (a \<cdot> p) (1 - cos \<theta>)\<close>, and the zero rotation is guarded
  by the first-order Taylor approximation \<open>p + \<omega> \<times> p\<close>. The specification names no
  threshold for the guard, so the guard here is the zero rotation itself.
  The three entries read are those at indices 0, 1 and 2 of each argument.
\<close>

definition AngleAxisRotatePoint :: "real list \<Rightarrow> real list \<Rightarrow> real list" where
  "AngleAxisRotatePoint angle_axis pt =
     (let theta2 = angle_axis ! 0 * angle_axis ! 0 + angle_axis ! 1 * angle_axis ! 1
                     + angle_axis ! 2 * angle_axis ! 2
      in if theta2 > 0 then
           (let theta = sqrt theta2;
                costheta = cos theta;
                sintheta = sin theta;
                w = [angle_axis ! 0 / theta, angle_axis ! 1 / theta, angle_axis ! 2 / theta];
                w_cross_pt = [w ! 1 * pt ! 2 - w ! 2 * pt ! 1,
                              w ! 2 * pt ! 0 - w ! 0 * pt ! 2,
                              w ! 0 * pt ! 1 - w ! 1 * pt ! 0];
                tmp = (w ! 0 * pt ! 0 + w ! 1 * pt ! 1 + w ! 2 * pt ! 2) * (1 - costheta)
            in [pt ! 0 * costheta + w_cross_pt ! 0 * sintheta + w ! 0 * tmp,
                pt ! 1 * costheta + w_cross_pt ! 1 * sintheta + w ! 1 * tmp,
                pt ! 2 * costheta + w_cross_pt ! 2 * sintheta + w ! 2 * tmp])
         else
           (let w_cross_pt = [angle_axis ! 1 * pt ! 2 - angle_axis ! 2 * pt ! 1,
                              angle_axis ! 2 * pt ! 0 - angle_axis ! 0 * pt ! 2,
                              angle_axis ! 0 * pt ! 1 - angle_axis ! 1 * pt ! 0]
            in [pt ! 0 + w_cross_pt ! 0, pt ! 1 + w_cross_pt ! 1, pt ! 2 + w_cross_pt ! 2]))"

subsection \<open>The functors and what a call leaves behind\<close>

text \<open>
  Each of the four structs has one member, the observation \<^verbatim>\<open>double m_pos_2dpoint[2]\<close>,
  which the constructor copies from the first two entries of its argument.
\<close>

record ResidualErrorFunctor =
  m_pos_2dpoint :: "T list"

definition ResidualErrorFunctor_Pinhole_Intrinsic :: "T list \<Rightarrow> ResidualErrorFunctor" where
  "ResidualErrorFunctor_Pinhole_Intrinsic pos_2dpoint =
     \<lparr>m_pos_2dpoint = [pos_2dpoint ! 0, pos_2dpoint ! 1]\<rparr>"

definition ResidualErrorFunctor_Pinhole_Intrinsic_Radial_K1 ::
    "T list \<Rightarrow> ResidualErrorFunctor" where
  "ResidualErrorFunctor_Pinhole_Intrinsic_Radial_K1 pos_2dpoint =
     \<lparr>m_pos_2dpoint = [pos_2dpoint ! 0, pos_2dpoint ! 1]\<rparr>"

definition ResidualErrorFunctor_Pinhole_Intrinsic_Radial_K3 ::
    "T list \<Rightarrow> ResidualErrorFunctor" where
  "ResidualErrorFunctor_Pinhole_Intrinsic_Radial_K3 pos_2dpoint =
     \<lparr>m_pos_2dpoint = [pos_2dpoint ! 0, pos_2dpoint ! 1]\<rparr>"

definition ResidualErrorFunctor_Pinhole_Rig_Intrinsic :: "T list \<Rightarrow> ResidualErrorFunctor" where
  "ResidualErrorFunctor_Pinhole_Rig_Intrinsic pos_2dpoint =
     \<lparr>m_pos_2dpoint = [pos_2dpoint ! 0, pos_2dpoint ! 1]\<rparr>"

text \<open>The enumerations that map the intrinsics onto the parameter block.\<close>

abbreviation (input) OFFSET_FOCAL_LENGTH :: nat where "OFFSET_FOCAL_LENGTH \<equiv> 0"
abbreviation (input) OFFSET_PRINCIPAL_POINT_X :: nat where "OFFSET_PRINCIPAL_POINT_X \<equiv> 1"
abbreviation (input) OFFSET_PRINCIPAL_POINT_Y :: nat where "OFFSET_PRINCIPAL_POINT_Y \<equiv> 2"
abbreviation (input) OFFSET_DISTO_K1 :: nat where "OFFSET_DISTO_K1 \<equiv> 3"
abbreviation (input) OFFSET_DISTO_K2 :: nat where "OFFSET_DISTO_K2 \<equiv> 4"
abbreviation (input) OFFSET_DISTO_K3 :: nat where "OFFSET_DISTO_K3 \<equiv> 5"

text \<open>
  A call of \<^verbatim>\<open>operator()\<close> is modelled by the values of its local variables when it
  returns, the two entries it has written to \<^verbatim>\<open>out_residuals\<close>, and the flag it returns.
  The parameter blocks hold finite numbers, and the rotation primitive returns a finite
  point; every operation that the functors themselves write, from the first addition of
  a translation on, is an operation of the scalar type and can overflow.
\<close>

record frame =
  pos_proj :: "T list"
  x_u :: T
  y_u :: T
  projected_x :: T
  projected_y :: T
  out_residuals :: "T list"
  ret :: bool

record radial_frame = frame +
  r2 :: T
  r_coeff :: T
  x_d :: T
  y_d :: T

record radial_K3_frame = radial_frame +
  r4 :: T
  r6 :: T

record rig_frame = frame +
  pos_rig :: "real list"
  rig_trans :: "real list"

definition Pinhole_Intrinsic_operator ::
    "ResidualErrorFunctor \<Rightarrow> real list \<Rightarrow> real list \<Rightarrow> real list \<Rightarrow> frame" where
  "Pinhole_Intrinsic_operator this cam_K cam_Rt pos_3dpoint =
     (let cam_R = cam_Rt;
          cam_t = drop 3 cam_Rt;
          pos_proj = AngleAxisRotatePoint cam_R pos_3dpoint;
          pos_proj = [Fin (pos_proj ! 0) + Fin (cam_t ! 0),
                      Fin (pos_proj ! 1) + Fin (cam_t ! 1),
                      Fin (pos_proj ! 2) + Fin (cam_t ! 2)];
          x_u = pos_proj ! 0 / pos_proj ! 2;
          y_u = pos_proj ! 1 / pos_proj ! 2;
          focal = Fin (cam_K ! OFFSET_FOCAL_LENGTH);
          principal_point_x = Fin (cam_K ! OFFSET_PRINCIPAL_POINT_X);
          principal_point_y = Fin (cam_K ! OFFSET_PRINCIPAL_POINT_Y);
          projected_x = principal_point_x + focal * x_u;
          projected_y = principal_point_y + focal * y_u
      in \<lparr>pos_proj = pos_proj, x_u = x_u, y_u = y_u,
          projected_x = projected_x, projected_y = projected_y,
          out_residuals = [projected_x - m_pos_2dpoint this ! 0,
                           projected_y - m_pos_2dpoint this ! 1],
          ret = True\<rparr>)"

definition Pinhole_Intrinsic_Radial_K1_operator ::
    "ResidualErrorFunctor \<Rightarrow> real list \<Rightarrow> real list \<Rightarrow> real list \<Rightarrow> radial_frame" where
  "Pinhole_Intrinsic_Radial_K1_operator this cam_K cam_Rt pos_3dpoint =
     (let cam_R = cam_Rt;
          cam_t = drop 3 cam_Rt;
          pos_proj = AngleAxisRotatePoint cam_R pos_3dpoint;
          pos_proj = [Fin (pos_proj ! 0) + Fin (cam_t ! 0),
                      Fin (pos_proj ! 1) + Fin (cam_t ! 1),
                      Fin (pos_proj ! 2) + Fin (cam_t ! 2)];
          x_u = pos_proj ! 0 / pos_proj ! 2;
          y_u = pos_proj ! 1 / pos_proj ! 2;
          focal = Fin (cam_K ! OFFSET_FOCAL_LENGTH);
          principal_point_x = Fin (cam_K ! OFFSET_PRINCIPAL_POINT_X);
          principal_point_y = Fin (cam_K ! OFFSET_PRINCIPAL_POINT_Y);
          k1 = Fin (cam_K ! OFFSET_DISTO_K1);
          r2 = x_u * x_u + y_u * y_u;
          r_coeff = Fin 1 + k1 * r2;
          x_d = x_u * r_coeff;
          y_d = y_u * r_coeff;
          projected_x = principal_point_x + focal * x_d;
          projected_y = principal_point_y + focal * y_d
      in \<lparr>pos_proj = pos_proj, x_u = x_u, y_u = y_u,
          projected_x = projected_x, projected_y = projected_y,
          out_residuals = [projected_x - m_pos_2dpoint this ! 0,
                           projected_y - m_pos_2dpoint this ! 1],
          ret = True,
          r2 = r2, r_coeff = r_coeff, x_d = x_d, y_d = y_d\<rparr>)"

definition Pinhole_Intrinsic_Radial_K3_operator ::
    "ResidualErrorFunctor \<Rightarrow> real list \<Rightarrow> real list \<Rightarrow> real list \<Rightarrow> radial_K3_frame" where
  "Pinhole_Intrinsic_Radial_K3_operator this cam_K cam_Rt pos_3dpoint =
     (let cam_R = cam_Rt;
          cam_t = drop 3 cam_Rt;
          pos_proj = AngleAxisRotatePoint cam_R pos_3dpoint;
          pos_proj = [Fin (pos_proj ! 0) + Fin (cam_t ! 0),
                      Fin (pos_proj ! 1) + Fin (cam_t ! 1),
                      Fin (pos_proj ! 2) + Fin (cam_t ! 2)];
          x_u = pos_proj ! 0 / pos_proj ! 2;
          y_u = pos_proj ! 1 / pos_proj ! 2;
          focal = Fin (cam_K ! OFFSET_FOCAL_LENGTH);
          principal_point_x = Fin (cam_K ! OFFSET_PRINCIPAL_POINT_X);
          principal_point_y = Fin (cam_K ! OFFSET_PRINCIPAL_POINT_Y);
          k1 = Fin (cam_K ! OFFSET_DISTO_K1);
          k2 = Fin (cam_K ! OFFSET_DISTO_K2);
          k3 = Fin (cam_K ! OFFSET_DISTO_K3);
          r2 = x_u * x_u + y_u * y_u;
          r4 = r2 * r2;
          r6 = r4 * r2;
          r_coeff = Fin 1 + k1 * r2 + k2 * r4 + k3 * r6;
          x_d = x_u * r_coeff;
          y_d = y_u * r_coeff;
          projected_x = principal_point_x + focal * x_d;
          projected_y = principal_point_y + focal * y_d
      in \<lparr>pos_proj = pos_proj, x_u = x_u, y_u = y_u,
          projected_x = projected_x, projected_y = projected_y,
          out_residuals = [projected_x - m_pos_2dpoint this ! 0,
                           projected_y - m_pos_2dpoint this ! 1],
          ret = True,
          r2 = r2, r_coeff = r_coeff, x_d = x_d, y_d = y_d,
          r4 = r4, r6 = r6\<rparr>)"

text \<open>
  The rig functor reads the sub-pose from the intrinsics block: its rotation at indices
  3 to 5, its translation at indices 6 to 8. The pointer \<^verbatim>\<open>cam_pose_t\<close> to the platform
  translation is set up and not read again.
\<close>

definition Pinhole_Rig_Intrinsic_operator ::
    "ResidualErrorFunctor \<Rightarrow> real list \<Rightarrow> real list \<Rightarrow> real list \<Rightarrow> rig_frame" where
  "Pinhole_Rig_Intrinsic_operator this cam_K cam_Rt pos_3dpoint =
     (let cam_pose_R = cam_Rt;
          cam_pose_t = drop 3 cam_Rt;
          cam_subpose_R = drop 3 cam_K;
          cam_subpose_t = drop 6 cam_K;
          pos_rig = AngleAxisRotatePoint cam_pose_R pos_3dpoint;
          pos_proj = AngleAxisRotatePoint cam_subpose_R pos_rig;
          rig_trans = AngleAxisRotatePoint cam_pose_R cam_subpose_t;
          pos_proj = [Fin (pos_proj ! 0) + (Fin (cam_subpose_t ! 0) + Fin (rig_trans ! 0)),
                      Fin (pos_proj ! 1) + (Fin (cam_subpose_t ! 1) + Fin (rig_trans ! 1)),
                      Fin (pos_proj ! 2) + (Fin (cam_subpose_t ! 2) + Fin (rig_trans ! 2))];
          x_u = pos_proj ! 0 / pos_proj ! 2;
          y_u = pos_proj ! 1 / pos_proj ! 2;
          focal = Fin (cam_K ! OFFSET_FOCAL_LENGTH);
          principal_point_x = Fin (cam_K ! OFFSET_PRINCIPAL_POINT_X);
          principal_point_y = Fin (cam_K ! OFFSET_PRINCIPAL_POINT_Y);
          projected_x = principal_point_x + focal * x_u;
          projected_y = principal_point_y + focal * y_u
      in \<lparr>pos_proj = pos_proj, x_u = x_u, y_u = y_u,
          projected_x = projected_x, projected_y = projected_y,
          out_residuals = [projected_x - m_pos_2dpoint this ! 0,
                           projected_y - m_pos_2dpoint this ! 1],
          ret = True,
          pos_rig = pos_rig, rig_trans = rig_trans\<rparr>)"

subsection \<open>The rig's camera-space point as the specification words it\<close>

text \<open>
  The specification of the rig model, steps 1 to 3: rotate the point by the platform
  rotation, rotate the result by the sub-pose rotation, and add a total translation that
  is the sub-pose translation rotated by the platform rotation, plus the sub-pose
  translation, plus the platform translation. This definition follows those words, to be
  compared with \<open>pos_proj\<close> of \<open>Pinhole_Rig_Intrinsic_operator\<close>.
\<close>

definition Rig_camera_point_spec :: "real list \<Rightarrow> real list \<Rightarrow> real list \<Rightarrow> real list" where
  "Rig_camera_point_spec cam_K cam_Rt pos_3dpoint =
     (let platform_R = take 3 cam_Rt;
          platform_t = drop 3 cam_Rt;
          subpose_R = take 3 (drop 3 cam_K);
          subpose_t = drop 6 cam_K;
          rotated = AngleAxisRotatePoint subpose_R (AngleAxisRotatePoint platform_R pos_3dpoint);
          rotated_subpose_t = AngleAxisRotatePoint platform_R subpose_t;
          total = [rotated_subpose_t ! 0 + subpose_t ! 0 + platform_t ! 0,
                   rotated_subpose_t ! 1 + subpose_t ! 1 + platform_t ! 1,
                   rotated_subpose_t ! 2 + subpose_t ! 2 + platform_t ! 2]
      in [rotated ! 0 + total ! 0, rotated ! 1 + total ! 1, rotated ! 2 + total ! 2])"

section \<open>Properties\<close>

subsection \<open>Arithmetic of the scalars\<close>

lemma DBL_MAX_bounds: "2 ^ 1023 < DBL_MAX" "DBL_MAX < 2 ^ 1024"
  by (simp_all add: DBL_MAX_def)

lemma DBL_MAX_pos: "1 < DBL_MAX"
  using DBL_MAX_bounds(1) by (simp add: less_trans [of 1 "2 ^ 1023" DBL_MAX])

lemma round_T_exact: "\<bar>r\<bar> \<le> 2 ^ 1023 \<Longrightarrow> round_T r = Fin r"
  using DBL_MAX_bounds(1) by (simp add: round_T_def abs_le_iff)

lemma round_T_small: "\<bar>r\<bar> \<le> 2 ^ 32 \<Longrightarrow> round_T r = Fin r"
  by (rule round_T_exact) (simp add: order_trans [of "\<bar>r\<bar>" "2 ^ 32" "2 ^ 1023"])

lemma round_T_over: "2 ^ 1024 \<le> r \<Longrightarrow> round_T r = PInf"
  using DBL_MAX_bounds(2) by (simp add: round_T_def)

lemma round_T_pow2: "round_T (2 ^ n) = (if n \<le> 1023 then Fin (2 ^ n) else PInf)"
proof (cases "n \<le> 1023")
  case True
  then have "(2::real) ^ n \<le> 2 ^ 1023"
    by (intro power_increasing) simp_all
  then have "\<bar>(2::real) ^ n\<bar> \<le> 2 ^ 1023"
    by simp
  with True show ?thesis
    by (simp only: round_T_exact if_True)
next
  case False
  then have "1024 \<le> n" by simp
  then have "(2::real) ^ 1024 \<le> 2 ^ n"
    by (intro power_increasing) simp_all
  with False show ?thesis
    by (simp only: round_T_over if_False)
qed

lemma round_T_0 [simp]: "round_T 0 = Fin 0"
  using DBL_MAX_pos by (simp add: round_T_def)

lemma round_T_1 [simp]: "round_T 1 = Fin 1"
  using DBL_MAX_pos by (simp add: round_T_def)

lemma Fin_plus [simp]: "Fin x + Fin y = round_T (x + y)"
  by (simp add: plus_T_def)

lemma Fin_minus [simp]: "Fin x - Fin y = round_T (x - y)"
  by (simp add: minus_T_def plus_T_def uminus_T_def)

lemma Fin_times [simp]: "Fin x * Fin y = round_T (x * y)"
  by (simp add: times_T_def)

lemma Fin_divide [simp]:
  "Fin x / Fin y = (if y = 0 then inf_of_sign x else round_T (x / y))"
  by (simp add: divide_T_def)

lemma inf_of_sign_not_Fin [simp]: "inf_of_sign s \<noteq> Fin r"
  by (simp add: inf_of_sign_def)

lemma inf_of_sign_eval [simp]:
  "inf_of_sign 0 = NaN" "0 < s \<Longrightarrow> inf_of_sign s = PInf" "s < 0 \<Longrightarrow> inf_of_sign s = NInf"
  by (simp_all add: inf_of_sign_def)

lemma NaN_propagates [simp]:
  "NaN + a = NaN" "a + NaN = NaN" "NaN - a = NaN" "a - NaN = NaN"
  "NaN * a = NaN" "a * NaN = NaN" "NaN / a = NaN" "a / NaN = NaN"
  by (simp_all add: plus_T_def minus_T_def uminus_T_def times_T_def divide_T_def split: T.splits)

lemma infinity_plus [simp]:
  "Fin x + PInf = PInf" "PInf + Fin x = PInf" "PInf + PInf = PInf"
  "Fin x + NInf = NInf" "NInf + Fin x = NInf" "NInf + NInf = NInf"
  "PInf + NInf = NaN" "NInf + PInf = NaN"
  by (simp_all add: plus_T_def)

lemma infinity_minus [simp]:
  "Fin x - PInf = NInf" "PInf - Fin x = PInf" "PInf - NInf = PInf"
  "Fin x - NInf = PInf" "NInf - Fin x = NInf" "NInf - PInf = NInf"
  "PInf - PInf = NaN" "NInf - NInf = NaN"
  by (simp_all add: minus_T_def plus_T_def uminus_T_def)

lemma infinity_times [simp]:
  "Fin x * PInf = inf_of_sign x" "PInf * Fin x = inf_of_sign x"
  "Fin x * NInf = inf_of_sign (- x)" "NInf * Fin x = inf_of_sign (- x)"
  "PInf * PInf = PInf" "NInf * NInf = PInf" "PInf * NInf = NInf" "NInf * PInf = NInf"
  by (simp_all add: times_T_def)

lemma infinity_divide [simp]:
  "Fin x / PInf = Fin 0" "Fin x / NInf = Fin 0"
  "PInf / Fin y = (if 0 \<le> y then PInf else NInf)"
  "NInf / Fin y = (if 0 \<le> y then NInf else PInf)"
  "PInf / PInf = NaN" "PInf / NInf = NaN" "NInf / PInf = NaN" "NInf / NInf = NaN"
  by (simp_all add: divide_T_def)

text \<open>A finite product has finite factors.\<close>

lemma times_Fin_cases: "a * b = Fin s \<Longrightarrow> \<exists>x y. a = Fin x \<and> b = Fin y"
  by (cases a; cases b) (simp_all add: times_T_def)

text \<open>
  A sum and a quotient are results of the scalar type already, so adding zero to the one
  and multiplying the other by one changes nothing.
\<close>

lemma plus_then_zero: "(a + b) + Fin 0 = a + b"
  by (cases a; cases b) (auto simp add: plus_T_def round_T_def)

lemma divide_then_one: "(a / b) * Fin 1 = a / b"
  using DBL_MAX_pos
  by (cases a; cases b) (auto simp add: divide_T_def times_T_def round_T_def inf_of_sign_def)

lemma K1_coeff_at_zero: "R = Fin b \<Longrightarrow> Fin 1 + Fin 0 * R = Fin 1"
  by simp

lemma K3_coeff_reduces:
  assumes "R * R * R = Fin s"
  shows "Fin 1 + k * R + Fin 0 * (R * R) + Fin 0 * (R * R * R) = Fin 1 + k * R"
proof -
  from assms obtain a where a: "R * R = Fin a"
    using times_Fin_cases by blast
  have z4: "Fin 0 * (R * R) = Fin 0" by (simp add: a)
  have z6: "Fin 0 * (R * R * R) = Fin 0" by (simp add: assms)
  show ?thesis
    by (simp only: z4 z6 plus_then_zero)
qed

lemma K3_finite_r2:
  assumes "R * R * R = Fin s"
  shows "\<exists>b. R = Fin b"
  using assms times_Fin_cases by blast

subsection \<open>Unfolding the functors\<close>

lemmas operator_defs =
  Pinhole_Intrinsic_operator_def Pinhole_Intrinsic_Radial_K1_operator_def
  Pinhole_Intrinsic_Radial_K3_operator_def Pinhole_Rig_Intrinsic_operator_def

lemmas ctor_defs =
  ResidualErrorFunctor_Pinhole_Intrinsic_def
  ResidualErrorFunctor_Pinhole_Intrinsic_Radial_K1_def
  ResidualErrorFunctor_Pinhole_Intrinsic_Radial_K3_def
  ResidualErrorFunctor_Pinhole_Rig_Intrinsic_def

text \<open>The rotation primitive reads three entries of its first argument.\<close>

lemma AngleAxisRotatePoint_zero:
  "AngleAxisRotatePoint (0 # 0 # 0 # rest) [X, Y, Z] = [X, Y, Z]"
  by (simp add: AngleAxisRotatePoint_def)

lemma AngleAxisRotatePoint_prefix:
  "AngleAxisRotatePoint (a # b # c # rest) pt = AngleAxisRotatePoint [a, b, c] pt"
  by (simp add: AngleAxisRotatePoint_def Let_def)

text \<open>Each local variable of a call in terms of the ones before it.\<close>

lemma Pinhole_fields:
  "x_u (Pinhole_Intrinsic_operator f cam_K cam_Rt p)
     = pos_proj (Pinhole_Intrinsic_operator f cam_K cam_Rt p) ! 0
       / pos_proj (Pinhole_Intrinsic_operator f cam_K cam_Rt p) ! 2"
  "y_u (Pinhole_Intrinsic_operator f cam_K cam_Rt p)
     = pos_proj (Pinhole_Intrinsic_operator f cam_K cam_Rt p) ! 1
       / pos_proj (Pinhole_Intrinsic_operator f cam_K cam_Rt p) ! 2"
  "projected_x (Pinhole_Intrinsic_operator f cam_K cam_Rt p)
     = Fin (cam_K ! 1) + Fin (cam_K ! 0) * x_u (Pinhole_Intrinsic_operator f cam_K cam_Rt p)"
  "projected_y (Pinhole_Intrinsic_operator f cam_K cam_Rt p)
     = Fin (cam_K ! 2) + Fin (cam_K ! 0) * y_u (Pinhole_Intrinsic_operator f cam_K cam_Rt p)"
  "out_residuals (Pinhole_Intrinsic_operator f cam_K cam_Rt p)
     = [projected_x (Pinhole_Intrinsic_operator f cam_K cam_Rt p) - m_pos_2dpoint f ! 0,
        projected_y (Pinhole_Intrinsic_operator f cam_K cam_Rt p) - m_pos_2dpoint f ! 1]"
  by (simp_all add: Pinhole_Intrinsic_operator_def Let_def)

lemma Radial_K1_fields:
  "x_u (Pinhole_Intrinsic_Radial_K1_operator f cam_K cam_Rt p)
     = pos_proj (Pinhole_Intrinsic_Radial_K1_operator f cam_K cam_Rt p) ! 0
       / pos_proj (Pinhole_Intrinsic_Radial_K1_operator f cam_K cam_Rt p) ! 2"
  "y_u (Pinhole_Intrinsic_Radial_K1_operator f cam_K cam_Rt p)
     = pos_proj (Pinhole_Intrinsic_Radial_K1_operator f cam_K cam_Rt p) ! 1
       / pos_proj (Pinhole_Intrinsic_Radial_K1_operator f cam_K cam_Rt p) ! 2"
  "r2 (Pinhole_Intrinsic_Radial_K1_operator f cam_K cam_Rt p)
     = x_u (Pinhole_Intrinsic_Radial_K1_operator f cam_K cam_Rt p)
         * x_u (Pinhole_Intrinsic_Radial_K1_operator f cam_K cam_Rt p)
       + y_u (Pinhole_Intrinsic_Radial_K1_operator f cam_K cam_Rt p)
         * y_u (Pinhole_Intrinsic_Radial_K1_operator f cam_K cam_Rt p)"
  "r_coeff (Pinhole_Intrinsic_Radial_K1_operator f cam_K cam_Rt p)
     = Fin 1 + Fin (cam_K ! 3) * r2 (Pinhole_Intrinsic_Radial_K1_operator f cam_K cam_Rt p)"
  "x_d (Pinhole_Intrinsic_Radial_K1_operator f cam_K cam_Rt p)
     = x_u (Pinhole_Intrinsic_Radial_K1_operator f cam_K cam_Rt p)
       * r_coeff (Pinhole_Intrinsic_Radial_K1_operator f cam_K cam_Rt p)"
  "y_d (Pinhole_Intrinsic_Radial_K1_operator f cam_K cam_Rt p)
     = y_u (Pinhole_Intrinsic_Radial_K1_operator f cam_K cam_Rt p)
       * r_coeff (Pinhole_Intrinsic_Radial_K1_operator f cam_K cam_Rt p)"
  "projected_x (Pinhole_Intrinsic_Radial_K1_operator f cam_K cam_Rt p)
     = Fin (cam_K ! 1)
       + Fin (cam_K ! 0) * x_d (Pinhole_Intrinsic_Radial_K1_operator f cam_K cam_Rt p)"
  "projected_y (Pinhole_Intrinsic_Radial_K1_operator f cam_K cam_Rt p)
     = Fin (cam_K ! 2)
       + Fin (cam_K ! 0) * y_d (Pinhole_Intrinsic_Radial_K1_operator f cam_K cam_Rt p)"
  "out_residuals (Pinhole_Intrinsic_Radial_K1_operator f cam_K cam_Rt p)
     = [projected_x (Pinhole_Intrinsic_Radial_K1_operator f cam_K cam_Rt p)
          - m_pos_2dpoint f ! 0,
        projected_y (Pinhole_Intrinsic_Radial_K1_operator f cam_K cam_Rt p)
          - m_pos_2dpoint f ! 1]"
  by (simp_all add: Pinhole_Intrinsic_Radial_K1_operator_def Let_def)

lemma Radial_K3_fields:
  "x_u (Pinhole_Intrinsic_Radial_K3_operator f cam_K cam_Rt p)
     = pos_proj (Pinhole_Intrinsic_Radial_K3_operator f cam_K cam_Rt p) ! 0
       / pos_proj (Pinhole_Intrinsic_Radial_K3_operator f cam_K cam_Rt p) ! 2"
  "y_u (Pinhole_Intrinsic_Radial_K3_operator f cam_K cam_Rt p)
     = pos_proj (Pinhole_Intrinsic_Radial_K3_operator f cam_K cam_Rt p) ! 1
       / pos_proj (Pinhole_Intrinsic_Radial_K3_operator f cam_K cam_Rt p) ! 2"
  "r2 (Pinhole_Intrinsic_Radial_K3_operator f cam_K cam_Rt p)
     = x_u (Pinhole_Intrinsic_Radial_K3_operator f cam_K cam_Rt p)
         * x_u (Pinhole_Intrinsic_Radial_K3_operator f cam_K cam_Rt p)
       + y_u (Pinhole_Intrinsic_Radial_K3_operator f cam_K cam_Rt p)
         * y_u (Pinhole_Intrinsic_Radial_K3_operator f cam_K cam_Rt p)"
  "r4 (Pinhole_Intrinsic_Radial_K3_operator f cam_K cam_Rt p)
     = r2 (Pinhole_Intrinsic_Radial_K3_operator f cam_K cam_Rt p)
       * r2 (Pinhole_Intrinsic_Radial_K3_operator f cam_K cam_Rt p)"
  "r6 (Pinhole_Intrinsic_Radial_K3_operator f cam_K cam_Rt p)
     = r4 (Pinhole_Intrinsic_Radial_K3_operator f cam_K cam_Rt p)
       * r2 (Pinhole_Intrinsic_Radial_K3_operator f cam_K cam_Rt p)"
  "r_coeff (Pinhole_Intrinsic_Radial_K3_operator f cam_K cam_Rt p)
     = Fin 1 + Fin (cam_K ! 3) * r2 (Pinhole_Intrinsic_Radial_K3_operator f cam_K cam_Rt p)
       + Fin (cam_K ! 4) * r4 (Pinhole_Intrinsic_Radial_K3_operator f cam_K cam_Rt p)
       + Fin (cam_K ! 5) * r6 (Pinhole_Intrinsic_Radial_K3_operator f cam_K cam_Rt p)"
  "x_d (Pinhole_Intrinsic_Radial_K3_operator f cam_K cam_Rt p)
     = x_u (Pinhole_Intrinsic_Radial_K3_operator f cam_K cam_Rt p)
       * r_coeff (Pinhole_Intrinsic_Radial_K3_operator f cam_K cam_Rt p)"
  "y_d (Pinhole_Intrinsic_Radial_K3_operator f cam_K cam_Rt p)
     = y_u (Pinhole_Intrinsic_Radial_K3_operator f cam_K cam_Rt p)
       * r_coeff (Pinhole_Intrinsic_Radial_K3_operator f cam_K cam_Rt p)"
  "projected_x (Pinhole_Intrinsic_Radial_K3_operator f cam_K cam_Rt p)
     = Fin (cam_K ! 1)
       + Fin (cam_K ! 0) * x_d (Pinhole_Intrinsic_Radial_K3_operator f cam_K cam_Rt p)"
  "projected_y (Pinhole_Intrinsic_Radial_K3_operator f cam_K cam_Rt p)
     = Fin (cam_K ! 2)
       + Fin (cam_K ! 0) * y_d (Pinhole_Intrinsic_Radial_K3_operator f cam_K cam_Rt p)"
  "out_residuals (Pinhole_Intrinsic_Radial_K3_operator f cam_K cam_Rt p)
     = [projected_x (Pinhole_Intrinsic_Radial_K3_operator f cam_K cam_Rt p)
          - m_pos_2dpoint f ! 0,
        projected_y (Pinhole_Intrinsic_Radial_K3_operator f cam_K cam_Rt p)
          - m_pos_2dpoint f ! 1]"
  by (simp_all add: Pinhole_Intrinsic_Radial_K3_operator_def Let_def)

lemma Rig_out_residuals:
  "out_residuals (Pinhole_Rig_Intrinsic_operator f cam_K cam_Rt p)
     = [projected_x (Pinhole_Rig_Intrinsic_operator f cam_K cam_Rt p) - m_pos_2dpoint f ! 0,
        projected_y (Pinhole_Rig_Intrinsic_operator f cam_K cam_Rt p) - m_pos_2dpoint f ! 1]"
  by (simp add: Pinhole_Rig_Intrinsic_operator_def Let_def)

text \<open>The pose part is the same code in the three functors without a sub-pose.\<close>

lemma pos_proj_same:
  "pos_proj (Pinhole_Intrinsic_Radial_K1_operator f cam_K cam_Rt p)
     = pos_proj (Pinhole_Intrinsic_operator f' cam_K' cam_Rt p)"
  "pos_proj (Pinhole_Intrinsic_Radial_K3_operator f cam_K cam_Rt p)
     = pos_proj (Pinhole_Intrinsic_operator f' cam_K' cam_Rt p)"
  by (simp_all add: operator_defs Let_def)

lemma observation_of_functor [simp]:
  "m_pos_2dpoint (ResidualErrorFunctor_Pinhole_Intrinsic pos_2dpoint)
     = [pos_2dpoint ! 0, pos_2dpoint ! 1]"
  "m_pos_2dpoint (ResidualErrorFunctor_Pinhole_Intrinsic_Radial_K1 pos_2dpoint)
     = [pos_2dpoint ! 0, pos_2dpoint ! 1]"
  "m_pos_2dpoint (ResidualErrorFunctor_Pinhole_Intrinsic_Radial_K3 pos_2dpoint)
     = [pos_2dpoint ! 0, pos_2dpoint ! 1]"
  "m_pos_2dpoint (ResidualErrorFunctor_Pinhole_Rig_Intrinsic pos_2dpoint)
     = [pos_2dpoint ! 0, pos_2dpoint ! 1]"
  by (simp_all add: ctor_defs)

text \<open>
  At a zero projected depth the perspective division gives an infinity or a NaN, and so
  does the residual; the call still returns.
\<close>

lemma Pinhole_zero_depth:
  "out_residuals (Pinhole_Intrinsic_operator
      (ResidualErrorFunctor_Pinhole_Intrinsic [Fin 0, Fin 0])
      [1000, 500, 500] [0, 0, 0, 0, 0, 0] [1, 1, 0]) = [PInf, PInf]
   \<and> out_residuals (Pinhole_Intrinsic_operator
      (ResidualErrorFunctor_Pinhole_Intrinsic [Fin 0, Fin 0])
      [1000, 500, 500] [0, 0, 0, 0, 0, 0] [0, 0, 0]) = [NaN, NaN]
   \<and> ret (Pinhole_Intrinsic_operator
      (ResidualErrorFunctor_Pinhole_Intrinsic [Fin 0, Fin 0])
      [1000, 500, 500] [0, 0, 0, 0, 0, 0] [1, 1, 0]) = True"
proof -
  have a: "Pinhole_Intrinsic_operator
      (ResidualErrorFunctor_Pinhole_Intrinsic [Fin 0, Fin 0])
      [1000, 500, 500] [0, 0, 0, 0, 0, 0] [1, 1, 0]
      = \<lparr>pos_proj = [Fin 1, Fin 1, Fin 0],
         x_u = PInf,
         y_u = PInf,
         projected_x = PInf,
         projected_y = PInf,
         out_residuals = [PInf, PInf],
         ret = True\<rparr>"
    by (simp add: Pinhole_Intrinsic_operator_def ResidualErrorFunctor_Pinhole_Intrinsic_def
        AngleAxisRotatePoint_zero Let_def round_T_small)
  have b: "Pinhole_Intrinsic_operator
      (ResidualErrorFunctor_Pinhole_Intrinsic [Fin 0, Fin 0])
      [1000, 500, 500] [0, 0, 0, 0, 0, 0] [0, 0, 0]
      = \<lparr>pos_proj = [Fin 0, Fin 0, Fin 0],
         x_u = NaN,
         y_u = NaN,
         projected_x = NaN,
         projected_y = NaN,
         out_residuals = [NaN, NaN],
         ret = True\<rparr>"
    by (simp add: Pinhole_Intrinsic_operator_def ResidualErrorFunctor_Pinhole_Intrinsic_def
        AngleAxisRotatePoint_zero Let_def round_T_small)
  show ?thesis
    unfolding a b by simp
qed

subsection \<open>The rig functor and the platform translation\<close>

text \<open>
  The camera-space point of the rig functor on every input: the right-hand side has no
  entry of the platform translation.
\<close>

lemma Rig_pos_proj:
  "pos_proj (Pinhole_Rig_Intrinsic_operator f [focal, ppx, ppy, sx, sy, sz, ux, uy, uz]
       [rx, ry, rz, tx, ty, tz] pos_3dpoint)
   = [Fin (AngleAxisRotatePoint [sx, sy, sz]
             (AngleAxisRotatePoint [rx, ry, rz] pos_3dpoint) ! 0)
        + (Fin ux + Fin (AngleAxisRotatePoint [rx, ry, rz] [ux, uy, uz] ! 0)),
      Fin (AngleAxisRotatePoint [sx, sy, sz]
             (AngleAxisRotatePoint [rx, ry, rz] pos_3dpoint) ! 1)
        + (Fin uy + Fin (AngleAxisRotatePoint [rx, ry, rz] [ux, uy, uz] ! 1)),
      Fin (AngleAxisRotatePoint [sx, sy, sz]
             (AngleAxisRotatePoint [rx, ry, rz] pos_3dpoint) ! 2)
        + (Fin uz + Fin (AngleAxisRotatePoint [rx, ry, rz] [ux, uy, uz] ! 2))]"
  by (simp add: Pinhole_Rig_Intrinsic_operator_def Let_def
      AngleAxisRotatePoint_prefix [of rx ry rz "[tx, ty, tz]"]
      AngleAxisRotatePoint_prefix [of sx sy sz "[ux, uy, uz]"] del: Fin_plus)

text \<open>
  C1. Specified: with a zero sub-pose rotation and translation the rig functor gives the
  residual of the pinhole functor on the platform pose. The code at the intrinsics
  \<open>[1000, 500, 500]\<close> with a zero sub-pose, the platform pose of zero rotation and
  translation \<open>(0, 0, 1)\<close>, the point \<open>(1, 1, 1)\<close> and the observation \<open>(1000, 1000)\<close>:
  both depths are non-zero, the pinhole residual is \<open>(0, 0)\<close> and the rig residual is
  \<open>(500, 500)\<close>. The rig functor never reads the platform translation, which its own
  comments add.
\<close>

theorem Rig_identity_subpose_differs_from_Pinhole:
  "pos_proj (Pinhole_Rig_Intrinsic_operator
      (ResidualErrorFunctor_Pinhole_Rig_Intrinsic [Fin 1000, Fin 1000])
      [1000, 500, 500, 0, 0, 0, 0, 0, 0] [0, 0, 0, 0, 0, 1] [1, 1, 1]) ! 2 = Fin 1
   \<and> pos_proj (Pinhole_Intrinsic_operator
      (ResidualErrorFunctor_Pinhole_Intrinsic [Fin 1000, Fin 1000])
      [1000, 500, 500] [0, 0, 0, 0, 0, 1] [1, 1, 1]) ! 2 = Fin 2
   \<and> out_residuals (Pinhole_Rig_Intrinsic_operator
      (ResidualErrorFunctor_Pinhole_Rig_Intrinsic [Fin 1000, Fin 1000])
      [1000, 500, 500, 0, 0, 0, 0, 0, 0] [0, 0, 0, 0, 0, 1] [1, 1, 1]) = [Fin 500, Fin 500]
   \<and> out_residuals (Pinhole_Intrinsic_operator
      (ResidualErrorFunctor_Pinhole_Intrinsic [Fin 1000, Fin 1000])
      [1000, 500, 500] [0, 0, 0, 0, 0, 1] [1, 1, 1]) = [Fin 0, Fin 0]"
proof -
  have r: "Pinhole_Rig_Intrinsic_operator
      (ResidualErrorFunctor_Pinhole_Rig_Intrinsic [Fin 1000, Fin 1000])
      [1000, 500, 500, 0, 0, 0, 0, 0, 0] [0, 0, 0, 0, 0, 1] [1, 1, 1]
      = \<lparr>pos_proj = [Fin 1, Fin 1, Fin 1],
         x_u = Fin 1,
         y_u = Fin 1,
         projected_x = Fin 1500,
         projected_y = Fin 1500,
         out_residuals = [Fin 500, Fin 500],
         ret = True,
         pos_rig = [1, 1, 1],
         rig_trans = [0, 0, 0]\<rparr>"
    by (simp add: Pinhole_Rig_Intrinsic_operator_def ResidualErrorFunctor_Pinhole_Rig_Intrinsic_def
        AngleAxisRotatePoint_zero Let_def round_T_small)
  have p: "Pinhole_Intrinsic_operator
      (ResidualErrorFunctor_Pinhole_Intrinsic [Fin 1000, Fin 1000])
      [1000, 500, 500] [0, 0, 0, 0, 0, 1] [1, 1, 1]
      = \<lparr>pos_proj = [Fin 1, Fin 1, Fin 2],
         x_u = Fin (1 / 2),
         y_u = Fin (1 / 2),
         projected_x = Fin 1000,
         projected_y = Fin 1000,
         out_residuals = [Fin 0, Fin 0],
         ret = True\<rparr>"
    by (simp add: Pinhole_Intrinsic_operator_def ResidualErrorFunctor_Pinhole_Intrinsic_def
        AngleAxisRotatePoint_zero Let_def round_T_small)
  show ?thesis
    unfolding r p by simp
qed

text \<open>
  C2. Specified: the rig functor's camera-space point is the twice rotated point plus the
  rotated sub-pose translation, the sub-pose translation and the platform translation.
  The code at a sub-pose translation \<open>(1, 0, 0)\<close>, zero rotations, the platform
  translation \<open>(0, 0, 1)\<close> and the point \<open>(1, 1, 1)\<close>: its camera-space point is
  \<open>(3, 1, 1)\<close>, with both sub-pose terms and without the platform translation, where the
  specified composition gives \<open>(3, 1, 2)\<close>.
\<close>

theorem Rig_camera_point_omits_platform_translation:
  "pos_proj (Pinhole_Rig_Intrinsic_operator
      (ResidualErrorFunctor_Pinhole_Rig_Intrinsic [Fin 0, Fin 0])
      [1000, 500, 500, 0, 0, 0, 1, 0, 0] [0, 0, 0, 0, 0, 1] [1, 1, 1]) = [Fin 3, Fin 1, Fin 1]
   \<and> Rig_camera_point_spec [1000, 500, 500, 0, 0, 0, 1, 0, 0] [0, 0, 0, 0, 0, 1] [1, 1, 1]
       = [3, 1, 2]"
proof -
  have r: "Pinhole_Rig_Intrinsic_operator
      (ResidualErrorFunctor_Pinhole_Rig_Intrinsic [Fin 0, Fin 0])
      [1000, 500, 500, 0, 0, 0, 1, 0, 0] [0, 0, 0, 0, 0, 1] [1, 1, 1]
      = \<lparr>pos_proj = [Fin 3, Fin 1, Fin 1],
         x_u = Fin 3,
         y_u = Fin 1,
         projected_x = Fin 3500,
         projected_y = Fin 1500,
         out_residuals = [Fin 3500, Fin 1500],
         ret = True,
         pos_rig = [1, 1, 1],
         rig_trans = [1, 0, 0]\<rparr>"
    by (simp add: Pinhole_Rig_Intrinsic_operator_def ResidualErrorFunctor_Pinhole_Rig_Intrinsic_def
        AngleAxisRotatePoint_zero Let_def round_T_small)
  show ?thesis
    unfolding r
    by (simp add: Rig_camera_point_spec_def AngleAxisRotatePoint_zero Let_def)
qed

text \<open>
  C10. Two extrinsics blocks with the same rotation entries and any translation entries
  give the same residual of the rig functor, for the same functor, intrinsics and point:
  the residual does not depend on the platform translation.
\<close>

theorem Rig_independent_of_platform_translation:
  "out_residuals (Pinhole_Rig_Intrinsic_operator f cam_K [rx, ry, rz, tx, ty, tz] pos_3dpoint)
   = out_residuals (Pinhole_Rig_Intrinsic_operator f cam_K [rx, ry, rz, tx', ty', tz'] pos_3dpoint)"
  by (simp add: Pinhole_Rig_Intrinsic_operator_def Let_def
      AngleAxisRotatePoint_prefix [of rx ry rz "[tx, ty, tz]"]
      AngleAxisRotatePoint_prefix [of rx ry rz "[tx', ty', tz']"])

subsection \<open>The pinhole functor\<close>

text \<open>
  C3. For intrinsics \<open>[focal, ppx, ppy]\<close>, extrinsics \<open>[r, t]\<close>, a point \<open>p\<close> and an
  observation \<open>(obs_x, obs_y)\<close>: when the camera-space point \<open>(Xc, Yc, Zc)\<close>, the point
  rotated by \<open>r\<close> plus \<open>t\<close>, has \<open>Zc\<close> non-zero, the pinhole functor writes the residual
  \<open>(ppx + focal * (Xc / Zc) - obs_x, ppy + focal * (Yc / Zc) - obs_y)\<close>, each operation
  being one of the scalar type.
\<close>

theorem Pinhole_residual_formula:
  assumes "Xc = Fin (AngleAxisRotatePoint [rx, ry, rz] [X, Y, Z] ! 0) + Fin tx"
      and "Yc = Fin (AngleAxisRotatePoint [rx, ry, rz] [X, Y, Z] ! 1) + Fin ty"
      and "Zc = Fin (AngleAxisRotatePoint [rx, ry, rz] [X, Y, Z] ! 2) + Fin tz"
      and "Zc \<noteq> Fin 0"
  shows "out_residuals (Pinhole_Intrinsic_operator
           (ResidualErrorFunctor_Pinhole_Intrinsic [obs_x, obs_y])
           [focal, ppx, ppy] [rx, ry, rz, tx, ty, tz] [X, Y, Z])
         = [Fin ppx + Fin focal * (Xc / Zc) - obs_x, Fin ppy + Fin focal * (Yc / Zc) - obs_y]"
  using assms
  by (simp add: Pinhole_Intrinsic_operator_def ResidualErrorFunctor_Pinhole_Intrinsic_def
      AngleAxisRotatePoint_prefix [of rx ry rz "[tx, ty, tz]"] Let_def)

theorem Pinhole_residual_formula_witness:
  "Fin 4 \<noteq> Fin 0
   \<and> out_residuals (Pinhole_Intrinsic_operator
           (ResidualErrorFunctor_Pinhole_Intrinsic [Fin 700, Fin 1100])
           [1000, 500, 500] [0, 0, 0, 0, 0, 1] [1, 2, 3])
         = [Fin 50, Fin (- 100)]"
proof -
  have hx: "Fin 1 = Fin (AngleAxisRotatePoint [0, 0, 0] [1, 2, 3] ! 0) + Fin 0"
    and hy: "Fin 2 = Fin (AngleAxisRotatePoint [0, 0, 0] [1, 2, 3] ! 1) + Fin 0"
    and hz: "Fin 4 = Fin (AngleAxisRotatePoint [0, 0, 0] [1, 2, 3] ! 2) + Fin 1"
    and hd: "Fin 4 \<noteq> Fin 0"
    by (simp_all add: AngleAxisRotatePoint_zero round_T_small)
  from hd Pinhole_residual_formula [OF hx hy hz hd,
      where focal = 1000 and ppx = 500 and ppy = 500 and obs_x = "Fin 700" and obs_y = "Fin 1100"]
  show ?thesis by (simp add: round_T_small)
qed

text \<open>
  C7. The pinhole functor at the identity rotation, translation \<open>(0, 0, 1)\<close>, point
  \<open>(0, 0, 0)\<close> and intrinsics \<open>[1000, 500, 500]\<close>: the camera-space point is \<open>(0, 0, 1)\<close>,
  the normalized coordinates are \<open>(0, 0)\<close> and the predicted pixel is \<open>(500, 500)\<close>; the
  residual is \<open>(0, 0)\<close> against the observation \<open>(500, 500)\<close> and \<open>(-10, 0)\<close> against
  \<open>(510, 500)\<close>.
\<close>

theorem Pinhole_end_to_end_example:
  "pos_proj (Pinhole_Intrinsic_operator
      (ResidualErrorFunctor_Pinhole_Intrinsic [Fin 500, Fin 500])
      [1000, 500, 500] [0, 0, 0, 0, 0, 1] [0, 0, 0]) = [Fin 0, Fin 0, Fin 1]
   \<and> x_u (Pinhole_Intrinsic_operator
      (ResidualErrorFunctor_Pinhole_Intrinsic [Fin 500, Fin 500])
      [1000, 500, 500] [0, 0, 0, 0, 0, 1] [0, 0, 0]) = Fin 0
   \<and> y_u (Pinhole_Intrinsic_operator
      (ResidualErrorFunctor_Pinhole_Intrinsic [Fin 500, Fin 500])
      [1000, 500, 500] [0, 0, 0, 0, 0, 1] [0, 0, 0]) = Fin 0
   \<and> projected_x (Pinhole_Intrinsic_operator
      (ResidualErrorFunctor_Pinhole_Intrinsic [Fin 500, Fin 500])
      [1000, 500, 500] [0, 0, 0, 0, 0, 1] [0, 0, 0]) = Fin 500
   \<and> projected_y (Pinhole_Intrinsic_operator
      (ResidualErrorFunctor_Pinhole_Intrinsic [Fin 500, Fin 500])
      [1000, 500, 500] [0, 0, 0, 0, 0, 1] [0, 0, 0]) = Fin 500
   \<and> out_residuals (Pinhole_Intrinsic_operator
      (ResidualErrorFunctor_Pinhole_Intrinsic [Fin 500, Fin 500])
      [1000, 500, 500] [0, 0, 0, 0, 0, 1] [0, 0, 0]) = [Fin 0, Fin 0]
   \<and> out_residuals (Pinhole_Intrinsic_operator
      (ResidualErrorFunctor_Pinhole_Intrinsic [Fin 510, Fin 500])
      [1000, 500, 500] [0, 0, 0, 0, 0, 1] [0, 0, 0]) = [Fin (- 10), Fin 0]"
proof -
  have a: "Pinhole_Intrinsic_operator
      (ResidualErrorFunctor_Pinhole_Intrinsic [Fin 500, Fin 500])
      [1000, 500, 500] [0, 0, 0, 0, 0, 1] [0, 0, 0]
      = \<lparr>pos_proj = [Fin 0, Fin 0, Fin 1],
         x_u = Fin 0,
         y_u = Fin 0,
         projected_x = Fin 500,
         projected_y = Fin 500,
         out_residuals = [Fin 0, Fin 0],
         ret = True\<rparr>"
    by (simp add: Pinhole_Intrinsic_operator_def ResidualErrorFunctor_Pinhole_Intrinsic_def
        AngleAxisRotatePoint_zero Let_def round_T_small)
  have b: "Pinhole_Intrinsic_operator
      (ResidualErrorFunctor_Pinhole_Intrinsic [Fin 510, Fin 500])
      [1000, 500, 500] [0, 0, 0, 0, 0, 1] [0, 0, 0]
      = \<lparr>pos_proj = [Fin 0, Fin 0, Fin 1],
         x_u = Fin 0,
         y_u = Fin 0,
         projected_x = Fin 500,
         projected_y = Fin 500,
         out_residuals = [Fin (- 10), Fin 0],
         ret = True\<rparr>"
    by (simp add: Pinhole_Intrinsic_operator_def ResidualErrorFunctor_Pinhole_Intrinsic_def
        AngleAxisRotatePoint_zero Let_def round_T_small)
  show ?thesis
    unfolding a b by simp
qed

subsection \<open>Radial distortion and its degenerate cases\<close>

text \<open>
  C4. For every pose, point and observation with a non-zero depth and a finite
  squared radius \<open>r2\<close>, that is, when \<open>x_u * x_u + y_u * y_u\<close> has not overflowed, the
  Radial-K1 functor on the intrinsics \<open>[focal, ppx, ppy, 0]\<close> gives the residual of the
  pinhole functor on \<open>[focal, ppx, ppy]\<close>.
\<close>

theorem Radial_K1_zero_is_Pinhole:
  assumes "pos_proj (Pinhole_Intrinsic_Radial_K1_operator
             (ResidualErrorFunctor_Pinhole_Intrinsic_Radial_K1 obs)
             [focal, ppx, ppy, 0] cam_Rt pos_3dpoint) ! 2 \<noteq> Fin 0"
      and "r2 (Pinhole_Intrinsic_Radial_K1_operator
             (ResidualErrorFunctor_Pinhole_Intrinsic_Radial_K1 obs)
             [focal, ppx, ppy, 0] cam_Rt pos_3dpoint) = Fin rr"
  shows "out_residuals (Pinhole_Intrinsic_Radial_K1_operator
             (ResidualErrorFunctor_Pinhole_Intrinsic_Radial_K1 obs)
             [focal, ppx, ppy, 0] cam_Rt pos_3dpoint)
         = out_residuals (Pinhole_Intrinsic_operator
             (ResidualErrorFunctor_Pinhole_Intrinsic obs)
             [focal, ppx, ppy] cam_Rt pos_3dpoint)"
proof -
  let ?k = "Pinhole_Intrinsic_Radial_K1_operator
             (ResidualErrorFunctor_Pinhole_Intrinsic_Radial_K1 obs)
             [focal, ppx, ppy, 0] cam_Rt pos_3dpoint"
  let ?p = "Pinhole_Intrinsic_operator
             (ResidualErrorFunctor_Pinhole_Intrinsic obs)
             [focal, ppx, ppy] cam_Rt pos_3dpoint"
  have pose: "pos_proj ?k = pos_proj ?p" by (rule pos_proj_same)
  have xu: "x_u ?k = x_u ?p" and yu: "y_u ?k = y_u ?p"
    by (simp_all only: Radial_K1_fields Pinhole_fields pose)
  have coeff: "r_coeff ?k = Fin 1"
    using assms(2) by (simp add: Radial_K1_fields(4))
  have "x_d ?k = x_u ?p" "y_d ?k = y_u ?p"
    by (simp_all only: Radial_K1_fields(5,6) coeff xu yu Pinhole_fields(1,2) divide_then_one)
  then show ?thesis
    by (simp add: Radial_K1_fields(7,8,9) Pinhole_fields(3,4,5))
qed

theorem Radial_K1_zero_is_Pinhole_witness:
  "pos_proj (Pinhole_Intrinsic_Radial_K1_operator
      (ResidualErrorFunctor_Pinhole_Intrinsic_Radial_K1 [Fin 700, Fin 1100])
      [1000, 500, 500, 0] [0, 0, 0, 0, 0, 1] [1, 2, 3]) ! 2 \<noteq> Fin 0
   \<and> r2 (Pinhole_Intrinsic_Radial_K1_operator
      (ResidualErrorFunctor_Pinhole_Intrinsic_Radial_K1 [Fin 700, Fin 1100])
      [1000, 500, 500, 0] [0, 0, 0, 0, 0, 1] [1, 2, 3]) = Fin (5 / 16)
   \<and> out_residuals (Pinhole_Intrinsic_Radial_K1_operator
      (ResidualErrorFunctor_Pinhole_Intrinsic_Radial_K1 [Fin 700, Fin 1100])
      [1000, 500, 500, 0] [0, 0, 0, 0, 0, 1] [1, 2, 3])
     = out_residuals (Pinhole_Intrinsic_operator
      (ResidualErrorFunctor_Pinhole_Intrinsic [Fin 700, Fin 1100])
      [1000, 500, 500] [0, 0, 0, 0, 0, 1] [1, 2, 3])
   \<and> out_residuals (Pinhole_Intrinsic_operator
      (ResidualErrorFunctor_Pinhole_Intrinsic [Fin 700, Fin 1100])
      [1000, 500, 500] [0, 0, 0, 0, 0, 1] [1, 2, 3]) = [Fin 50, Fin (- 100)]"
proof -
  have k: "Pinhole_Intrinsic_Radial_K1_operator
      (ResidualErrorFunctor_Pinhole_Intrinsic_Radial_K1 [Fin 700, Fin 1100])
      [1000, 500, 500, 0] [0, 0, 0, 0, 0, 1] [1, 2, 3]
      = \<lparr>pos_proj = [Fin 1, Fin 2, Fin 4],
         x_u = Fin (1 / 4),
         y_u = Fin (1 / 2),
         projected_x = Fin 750,
         projected_y = Fin 1000,
         out_residuals = [Fin 50, Fin (- 100)],
         ret = True,
         r2 = Fin (5 / 16),
         r_coeff = Fin 1,
         x_d = Fin (1 / 4),
         y_d = Fin (1 / 2)\<rparr>"
    by (simp add: Pinhole_Intrinsic_Radial_K1_operator_def ResidualErrorFunctor_Pinhole_Intrinsic_Radial_K1_def
        AngleAxisRotatePoint_zero Let_def round_T_small)
  have p: "Pinhole_Intrinsic_operator
      (ResidualErrorFunctor_Pinhole_Intrinsic [Fin 700, Fin 1100])
      [1000, 500, 500] [0, 0, 0, 0, 0, 1] [1, 2, 3]
      = \<lparr>pos_proj = [Fin 1, Fin 2, Fin 4],
         x_u = Fin (1 / 4),
         y_u = Fin (1 / 2),
         projected_x = Fin 750,
         projected_y = Fin 1000,
         out_residuals = [Fin 50, Fin (- 100)],
         ret = True\<rparr>"
    by (simp add: Pinhole_Intrinsic_operator_def ResidualErrorFunctor_Pinhole_Intrinsic_def
        AngleAxisRotatePoint_zero Let_def round_T_small)
  have depth: "pos_proj (Pinhole_Intrinsic_Radial_K1_operator
      (ResidualErrorFunctor_Pinhole_Intrinsic_Radial_K1 [Fin 700, Fin 1100])
      [1000, 500, 500, 0] [0, 0, 0, 0, 0, 1] [1, 2, 3]) ! 2 \<noteq> Fin 0"
    unfolding k by simp
  have finite: "r2 (Pinhole_Intrinsic_Radial_K1_operator
      (ResidualErrorFunctor_Pinhole_Intrinsic_Radial_K1 [Fin 700, Fin 1100])
      [1000, 500, 500, 0] [0, 0, 0, 0, 0, 1] [1, 2, 3]) = Fin (5 / 16)"
    unfolding k by simp
  have res: "out_residuals (Pinhole_Intrinsic_operator
      (ResidualErrorFunctor_Pinhole_Intrinsic [Fin 700, Fin 1100])
      [1000, 500, 500] [0, 0, 0, 0, 0, 1] [1, 2, 3]) = [Fin 50, Fin (- 100)]"
    unfolding p by simp
  from depth finite res Radial_K1_zero_is_Pinhole [OF depth finite]
  show ?thesis by blast
qed

text \<open>
  Without the condition on the squared radius the statement fails. At the point
  \<open>(2 ^ 600, 0, 1)\<close> with the identity pose the depth is 1 and every input is a finite
  double; the product \<open>x_u * x_u\<close> overflows, \<open>k1 * r2\<close> is \<open>0 * \<infinity>\<close>, and the Radial-K1
  residual is NaN where the pinhole residual is finite.
\<close>

theorem Radial_K1_zero_overflow_counterexample:
  "pos_proj (Pinhole_Intrinsic_Radial_K1_operator
      (ResidualErrorFunctor_Pinhole_Intrinsic_Radial_K1 [Fin 0, Fin 0])
      [1000, 500, 500, 0] [0, 0, 0, 0, 0, 0] [2 ^ 600, 0, 1]) ! 2 = Fin 1
   \<and> Fin 1 \<noteq> Fin 0
   \<and> r2 (Pinhole_Intrinsic_Radial_K1_operator
      (ResidualErrorFunctor_Pinhole_Intrinsic_Radial_K1 [Fin 0, Fin 0])
      [1000, 500, 500, 0] [0, 0, 0, 0, 0, 0] [2 ^ 600, 0, 1]) = PInf
   \<and> out_residuals (Pinhole_Intrinsic_Radial_K1_operator
      (ResidualErrorFunctor_Pinhole_Intrinsic_Radial_K1 [Fin 0, Fin 0])
      [1000, 500, 500, 0] [0, 0, 0, 0, 0, 0] [2 ^ 600, 0, 1]) = [NaN, NaN]
   \<and> out_residuals (Pinhole_Intrinsic_operator
      (ResidualErrorFunctor_Pinhole_Intrinsic [Fin 0, Fin 0])
      [1000, 500, 500] [0, 0, 0, 0, 0, 0] [2 ^ 600, 0, 1]) = [Fin (1000 * 2 ^ 600 + 500), Fin 500]
   \<and> out_residuals (Pinhole_Intrinsic_Radial_K1_operator
      (ResidualErrorFunctor_Pinhole_Intrinsic_Radial_K1 [Fin 0, Fin 0])
      [1000, 500, 500, 0] [0, 0, 0, 0, 0, 0] [2 ^ 600, 0, 1])
     \<noteq> out_residuals (Pinhole_Intrinsic_operator
      (ResidualErrorFunctor_Pinhole_Intrinsic [Fin 0, Fin 0])
      [1000, 500, 500] [0, 0, 0, 0, 0, 0] [2 ^ 600, 0, 1])"
proof -
  have k: "Pinhole_Intrinsic_Radial_K1_operator
      (ResidualErrorFunctor_Pinhole_Intrinsic_Radial_K1 [Fin 0, Fin 0])
      [1000, 500, 500, 0] [0, 0, 0, 0, 0, 0] [2 ^ 600, 0, 1]
      = \<lparr>pos_proj = [Fin (2 ^ 600), Fin 0, Fin 1],
         x_u = Fin (2 ^ 600),
         y_u = Fin 0,
         projected_x = NaN,
         projected_y = NaN,
         out_residuals = [NaN, NaN],
         ret = True,
         r2 = PInf,
         r_coeff = NaN,
         x_d = NaN,
         y_d = NaN\<rparr>"
    by (simp add: Pinhole_Intrinsic_Radial_K1_operator_def ResidualErrorFunctor_Pinhole_Intrinsic_Radial_K1_def
        AngleAxisRotatePoint_zero Let_def round_T_pow2 power_add [symmetric]
        del: power_numeral)
  have p: "Pinhole_Intrinsic_operator
      (ResidualErrorFunctor_Pinhole_Intrinsic [Fin 0, Fin 0])
      [1000, 500, 500] [0, 0, 0, 0, 0, 0] [2 ^ 600, 0, 1]
      = \<lparr>pos_proj = [Fin (2 ^ 600), Fin 0, Fin 1],
         x_u = Fin (2 ^ 600),
         y_u = Fin 0,
         projected_x = Fin (1000 * 2 ^ 600 + 500),
         projected_y = Fin 500,
         out_residuals = [Fin (1000 * 2 ^ 600 + 500), Fin 500],
         ret = True\<rparr>"
    by (simp add: Pinhole_Intrinsic_operator_def ResidualErrorFunctor_Pinhole_Intrinsic_def
        AngleAxisRotatePoint_zero Let_def round_T_exact round_T_over)
  show ?thesis
    unfolding k p by (simp del: power_numeral)
qed




subsection \<open>An observation at the predicted pixel\<close>

text \<open>
  C6. For each of the four functors, every pose, intrinsics block and point
  with a non-zero depth and a finite predicted pixel: a functor constructed with the
  pixel position that it predicts on those inputs gives the residual \<open>(0, 0)\<close> on them.
\<close>

theorem exact_projection_zero_residual:
  "((pos_proj (Pinhole_Intrinsic_operator
          (ResidualErrorFunctor_Pinhole_Intrinsic [Fin px, Fin py]) cam_K cam_Rt pos_3dpoint) ! 2 \<noteq> Fin 0
      \<and> projected_x (Pinhole_Intrinsic_operator
          (ResidualErrorFunctor_Pinhole_Intrinsic [Fin px, Fin py]) cam_K cam_Rt pos_3dpoint) = Fin px
      \<and> projected_y (Pinhole_Intrinsic_operator
          (ResidualErrorFunctor_Pinhole_Intrinsic [Fin px, Fin py]) cam_K cam_Rt pos_3dpoint) = Fin py)
    \<longrightarrow> out_residuals (Pinhole_Intrinsic_operator
          (ResidualErrorFunctor_Pinhole_Intrinsic [Fin px, Fin py]) cam_K cam_Rt pos_3dpoint) = [Fin 0, Fin 0])
   \<and> ((pos_proj (Pinhole_Intrinsic_Radial_K1_operator
          (ResidualErrorFunctor_Pinhole_Intrinsic_Radial_K1 [Fin px1, Fin py1]) cam_K1 cam_Rt pos_3dpoint) ! 2 \<noteq> Fin 0
      \<and> projected_x (Pinhole_Intrinsic_Radial_K1_operator
          (ResidualErrorFunctor_Pinhole_Intrinsic_Radial_K1 [Fin px1, Fin py1]) cam_K1 cam_Rt pos_3dpoint) = Fin px1
      \<and> projected_y (Pinhole_Intrinsic_Radial_K1_operator
          (ResidualErrorFunctor_Pinhole_Intrinsic_Radial_K1 [Fin px1, Fin py1]) cam_K1 cam_Rt pos_3dpoint) = Fin py1)
    \<longrightarrow> out_residuals (Pinhole_Intrinsic_Radial_K1_operator
          (ResidualErrorFunctor_Pinhole_Intrinsic_Radial_K1 [Fin px1, Fin py1]) cam_K1 cam_Rt pos_3dpoint) = [Fin 0, Fin 0])
   \<and> ((pos_proj (Pinhole_Intrinsic_Radial_K3_operator
          (ResidualErrorFunctor_Pinhole_Intrinsic_Radial_K3 [Fin px3, Fin py3]) cam_K3 cam_Rt pos_3dpoint) ! 2 \<noteq> Fin 0
      \<and> projected_x (Pinhole_Intrinsic_Radial_K3_operator
          (ResidualErrorFunctor_Pinhole_Intrinsic_Radial_K3 [Fin px3, Fin py3]) cam_K3 cam_Rt pos_3dpoint) = Fin px3
      \<and> projected_y (Pinhole_Intrinsic_Radial_K3_operator
          (ResidualErrorFunctor_Pinhole_Intrinsic_Radial_K3 [Fin px3, Fin py3]) cam_K3 cam_Rt pos_3dpoint) = Fin py3)
    \<longrightarrow> out_residuals (Pinhole_Intrinsic_Radial_K3_operator
          (ResidualErrorFunctor_Pinhole_Intrinsic_Radial_K3 [Fin px3, Fin py3]) cam_K3 cam_Rt pos_3dpoint) = [Fin 0, Fin 0])
   \<and> ((pos_proj (Pinhole_Rig_Intrinsic_operator
          (ResidualErrorFunctor_Pinhole_Rig_Intrinsic [Fin pxr, Fin pyr]) cam_Kr cam_Rt pos_3dpoint) ! 2 \<noteq> Fin 0
      \<and> projected_x (Pinhole_Rig_Intrinsic_operator
          (ResidualErrorFunctor_Pinhole_Rig_Intrinsic [Fin pxr, Fin pyr]) cam_Kr cam_Rt pos_3dpoint) = Fin pxr
      \<and> projected_y (Pinhole_Rig_Intrinsic_operator
          (ResidualErrorFunctor_Pinhole_Rig_Intrinsic [Fin pxr, Fin pyr]) cam_Kr cam_Rt pos_3dpoint) = Fin pyr)
    \<longrightarrow> out_residuals (Pinhole_Rig_Intrinsic_operator
          (ResidualErrorFunctor_Pinhole_Rig_Intrinsic [Fin pxr, Fin pyr]) cam_Kr cam_Rt pos_3dpoint) = [Fin 0, Fin 0])"
proof (intro conjI impI)
  show "out_residuals (Pinhole_Intrinsic_operator
          (ResidualErrorFunctor_Pinhole_Intrinsic [Fin px, Fin py]) cam_K cam_Rt pos_3dpoint) = [Fin 0, Fin 0]"
    if "pos_proj (Pinhole_Intrinsic_operator
          (ResidualErrorFunctor_Pinhole_Intrinsic [Fin px, Fin py]) cam_K cam_Rt pos_3dpoint) ! 2 \<noteq> Fin 0
      \<and> projected_x (Pinhole_Intrinsic_operator
          (ResidualErrorFunctor_Pinhole_Intrinsic [Fin px, Fin py]) cam_K cam_Rt pos_3dpoint) = Fin px
      \<and> projected_y (Pinhole_Intrinsic_operator
          (ResidualErrorFunctor_Pinhole_Intrinsic [Fin px, Fin py]) cam_K cam_Rt pos_3dpoint) = Fin py"
    using that by (simp add: Pinhole_fields(5))
  show "out_residuals (Pinhole_Intrinsic_Radial_K1_operator
          (ResidualErrorFunctor_Pinhole_Intrinsic_Radial_K1 [Fin px1, Fin py1]) cam_K1 cam_Rt pos_3dpoint) = [Fin 0, Fin 0]"
    if "pos_proj (Pinhole_Intrinsic_Radial_K1_operator
          (ResidualErrorFunctor_Pinhole_Intrinsic_Radial_K1 [Fin px1, Fin py1]) cam_K1 cam_Rt pos_3dpoint) ! 2 \<noteq> Fin 0
      \<and> projected_x (Pinhole_Intrinsic_Radial_K1_operator
          (ResidualErrorFunctor_Pinhole_Intrinsic_Radial_K1 [Fin px1, Fin py1]) cam_K1 cam_Rt pos_3dpoint) = Fin px1
      \<and> projected_y (Pinhole_Intrinsic_Radial_K1_operator
          (ResidualErrorFunctor_Pinhole_Intrinsic_Radial_K1 [Fin px1, Fin py1]) cam_K1 cam_Rt pos_3dpoint) = Fin py1"
    using that by (simp add: Radial_K1_fields(9))
  show "out_residuals (Pinhole_Intrinsic_Radial_K3_operator
          (ResidualErrorFunctor_Pinhole_Intrinsic_Radial_K3 [Fin px3, Fin py3]) cam_K3 cam_Rt pos_3dpoint) = [Fin 0, Fin 0]"
    if "pos_proj (Pinhole_Intrinsic_Radial_K3_operator
          (ResidualErrorFunctor_Pinhole_Intrinsic_Radial_K3 [Fin px3, Fin py3]) cam_K3 cam_Rt pos_3dpoint) ! 2 \<noteq> Fin 0
      \<and> projected_x (Pinhole_Intrinsic_Radial_K3_operator
          (ResidualErrorFunctor_Pinhole_Intrinsic_Radial_K3 [Fin px3, Fin py3]) cam_K3 cam_Rt pos_3dpoint) = Fin px3
      \<and> projected_y (Pinhole_Intrinsic_Radial_K3_operator
          (ResidualErrorFunctor_Pinhole_Intrinsic_Radial_K3 [Fin px3, Fin py3]) cam_K3 cam_Rt pos_3dpoint) = Fin py3"
    using that by (simp add: Radial_K3_fields(11))
  show "out_residuals (Pinhole_Rig_Intrinsic_operator
          (ResidualErrorFunctor_Pinhole_Rig_Intrinsic [Fin pxr, Fin pyr]) cam_Kr cam_Rt pos_3dpoint) = [Fin 0, Fin 0]"
    if "pos_proj (Pinhole_Rig_Intrinsic_operator
          (ResidualErrorFunctor_Pinhole_Rig_Intrinsic [Fin pxr, Fin pyr]) cam_Kr cam_Rt pos_3dpoint) ! 2 \<noteq> Fin 0
      \<and> projected_x (Pinhole_Rig_Intrinsic_operator
          (ResidualErrorFunctor_Pinhole_Rig_Intrinsic [Fin pxr, Fin pyr]) cam_Kr cam_Rt pos_3dpoint) = Fin pxr
      \<and> projected_y (Pinhole_Rig_Intrinsic_operator
          (ResidualErrorFunctor_Pinhole_Rig_Intrinsic [Fin pxr, Fin pyr]) cam_Kr cam_Rt pos_3dpoint) = Fin pyr"
    using that by (simp add: Rig_out_residuals)
qed

theorem exact_projection_zero_residual_witness:
  "pos_proj (Pinhole_Intrinsic_operator
        (ResidualErrorFunctor_Pinhole_Intrinsic [Fin 1500, Fin 1500])
        [1000, 500, 500] [0, 0, 0, 0, 0, 1] [1, 1, 0]) ! 2 \<noteq> Fin 0
      \<and> projected_x (Pinhole_Intrinsic_operator
        (ResidualErrorFunctor_Pinhole_Intrinsic [Fin 1500, Fin 1500])
        [1000, 500, 500] [0, 0, 0, 0, 0, 1] [1, 1, 0]) = Fin 1500
      \<and> projected_y (Pinhole_Intrinsic_operator
        (ResidualErrorFunctor_Pinhole_Intrinsic [Fin 1500, Fin 1500])
        [1000, 500, 500] [0, 0, 0, 0, 0, 1] [1, 1, 0]) = Fin 1500
      \<and> out_residuals (Pinhole_Intrinsic_operator
        (ResidualErrorFunctor_Pinhole_Intrinsic [Fin 1500, Fin 1500])
        [1000, 500, 500] [0, 0, 0, 0, 0, 1] [1, 1, 0]) = [Fin 0, Fin 0]
   \<and> pos_proj (Pinhole_Intrinsic_Radial_K1_operator
        (ResidualErrorFunctor_Pinhole_Intrinsic_Radial_K1 [Fin 1700, Fin 1700])
        [1000, 500, 500, 1 / 10] [0, 0, 0, 0, 0, 1] [1, 1, 0]) ! 2 \<noteq> Fin 0
      \<and> projected_x (Pinhole_Intrinsic_Radial_K1_operator
        (ResidualErrorFunctor_Pinhole_Intrinsic_Radial_K1 [Fin 1700, Fin 1700])
        [1000, 500, 500, 1 / 10] [0, 0, 0, 0, 0, 1] [1, 1, 0]) = Fin 1700
      \<and> projected_y (Pinhole_Intrinsic_Radial_K1_operator
        (ResidualErrorFunctor_Pinhole_Intrinsic_Radial_K1 [Fin 1700, Fin 1700])
        [1000, 500, 500, 1 / 10] [0, 0, 0, 0, 0, 1] [1, 1, 0]) = Fin 1700
      \<and> out_residuals (Pinhole_Intrinsic_Radial_K1_operator
        (ResidualErrorFunctor_Pinhole_Intrinsic_Radial_K1 [Fin 1700, Fin 1700])
        [1000, 500, 500, 1 / 10] [0, 0, 0, 0, 0, 1] [1, 1, 0]) = [Fin 0, Fin 0]
   \<and> pos_proj (Pinhole_Intrinsic_Radial_K3_operator
        (ResidualErrorFunctor_Pinhole_Intrinsic_Radial_K3 [Fin 1748, Fin 1748])
        [1000, 500, 500, 1 / 10, 1 / 100, 1 / 1000] [0, 0, 0, 0, 0, 1] [1, 1, 0]) ! 2 \<noteq> Fin 0
      \<and> projected_x (Pinhole_Intrinsic_Radial_K3_operator
        (ResidualErrorFunctor_Pinhole_Intrinsic_Radial_K3 [Fin 1748, Fin 1748])
        [1000, 500, 500, 1 / 10, 1 / 100, 1 / 1000] [0, 0, 0, 0, 0, 1] [1, 1, 0]) = Fin 1748
      \<and> projected_y (Pinhole_Intrinsic_Radial_K3_operator
        (ResidualErrorFunctor_Pinhole_Intrinsic_Radial_K3 [Fin 1748, Fin 1748])
        [1000, 500, 500, 1 / 10, 1 / 100, 1 / 1000] [0, 0, 0, 0, 0, 1] [1, 1, 0]) = Fin 1748
      \<and> out_residuals (Pinhole_Intrinsic_Radial_K3_operator
        (ResidualErrorFunctor_Pinhole_Intrinsic_Radial_K3 [Fin 1748, Fin 1748])
        [1000, 500, 500, 1 / 10, 1 / 100, 1 / 1000] [0, 0, 0, 0, 0, 1] [1, 1, 0]) = [Fin 0, Fin 0]
   \<and> pos_proj (Pinhole_Rig_Intrinsic_operator
        (ResidualErrorFunctor_Pinhole_Rig_Intrinsic [Fin 2500, Fin 1500])
        [1000, 500, 500, 0, 0, 0, 1 / 2, 0, 0] [0, 0, 0, 0, 0, 1] [1, 1, 1]) ! 2 \<noteq> Fin 0
      \<and> projected_x (Pinhole_Rig_Intrinsic_operator
        (ResidualErrorFunctor_Pinhole_Rig_Intrinsic [Fin 2500, Fin 1500])
        [1000, 500, 500, 0, 0, 0, 1 / 2, 0, 0] [0, 0, 0, 0, 0, 1] [1, 1, 1]) = Fin 2500
      \<and> projected_y (Pinhole_Rig_Intrinsic_operator
        (ResidualErrorFunctor_Pinhole_Rig_Intrinsic [Fin 2500, Fin 1500])
        [1000, 500, 500, 0, 0, 0, 1 / 2, 0, 0] [0, 0, 0, 0, 0, 1] [1, 1, 1]) = Fin 1500
      \<and> out_residuals (Pinhole_Rig_Intrinsic_operator
        (ResidualErrorFunctor_Pinhole_Rig_Intrinsic [Fin 2500, Fin 1500])
        [1000, 500, 500, 0, 0, 0, 1 / 2, 0, 0] [0, 0, 0, 0, 0, 1] [1, 1, 1]) = [Fin 0, Fin 0]"
proof -
  have f0: "Pinhole_Intrinsic_operator
      (ResidualErrorFunctor_Pinhole_Intrinsic [Fin 1500, Fin 1500])
      [1000, 500, 500] [0, 0, 0, 0, 0, 1] [1, 1, 0]
      = \<lparr>pos_proj = [Fin 1, Fin 1, Fin 1],
         x_u = Fin 1,
         y_u = Fin 1,
         projected_x = Fin 1500,
         projected_y = Fin 1500,
         out_residuals = [Fin 0, Fin 0],
         ret = True\<rparr>"
    by (simp add: Pinhole_Intrinsic_operator_def ResidualErrorFunctor_Pinhole_Intrinsic_def
        AngleAxisRotatePoint_zero Let_def round_T_small)
  have h0: "pos_proj (Pinhole_Intrinsic_operator
        (ResidualErrorFunctor_Pinhole_Intrinsic [Fin 1500, Fin 1500])
        [1000, 500, 500] [0, 0, 0, 0, 0, 1] [1, 1, 0]) ! 2 \<noteq> Fin 0
      \<and> projected_x (Pinhole_Intrinsic_operator
        (ResidualErrorFunctor_Pinhole_Intrinsic [Fin 1500, Fin 1500])
        [1000, 500, 500] [0, 0, 0, 0, 0, 1] [1, 1, 0]) = Fin 1500
      \<and> projected_y (Pinhole_Intrinsic_operator
        (ResidualErrorFunctor_Pinhole_Intrinsic [Fin 1500, Fin 1500])
        [1000, 500, 500] [0, 0, 0, 0, 0, 1] [1, 1, 0]) = Fin 1500"
    unfolding f0 by simp
  have f1: "Pinhole_Intrinsic_Radial_K1_operator
      (ResidualErrorFunctor_Pinhole_Intrinsic_Radial_K1 [Fin 1700, Fin 1700])
      [1000, 500, 500, 1 / 10] [0, 0, 0, 0, 0, 1] [1, 1, 0]
      = \<lparr>pos_proj = [Fin 1, Fin 1, Fin 1],
         x_u = Fin 1,
         y_u = Fin 1,
         projected_x = Fin 1700,
         projected_y = Fin 1700,
         out_residuals = [Fin 0, Fin 0],
         ret = True,
         r2 = Fin 2,
         r_coeff = Fin (6 / 5),
         x_d = Fin (6 / 5),
         y_d = Fin (6 / 5)\<rparr>"
    by (simp add: Pinhole_Intrinsic_Radial_K1_operator_def ResidualErrorFunctor_Pinhole_Intrinsic_Radial_K1_def
        AngleAxisRotatePoint_zero Let_def round_T_small)
  have h1: "pos_proj (Pinhole_Intrinsic_Radial_K1_operator
        (ResidualErrorFunctor_Pinhole_Intrinsic_Radial_K1 [Fin 1700, Fin 1700])
        [1000, 500, 500, 1 / 10] [0, 0, 0, 0, 0, 1] [1, 1, 0]) ! 2 \<noteq> Fin 0
      \<and> projected_x (Pinhole_Intrinsic_Radial_K1_operator
        (ResidualErrorFunctor_Pinhole_Intrinsic_Radial_K1 [Fin 1700, Fin 1700])
        [1000, 500, 500, 1 / 10] [0, 0, 0, 0, 0, 1] [1, 1, 0]) = Fin 1700
      \<and> projected_y (Pinhole_Intrinsic_Radial_K1_operator
        (ResidualErrorFunctor_Pinhole_Intrinsic_Radial_K1 [Fin 1700, Fin 1700])
        [1000, 500, 500, 1 / 10] [0, 0, 0, 0, 0, 1] [1, 1, 0]) = Fin 1700"
    unfolding f1 by simp
  have f2: "Pinhole_Intrinsic_Radial_K3_operator
      (ResidualErrorFunctor_Pinhole_Intrinsic_Radial_K3 [Fin 1748, Fin 1748])
      [1000, 500, 500, 1 / 10, 1 / 100, 1 / 1000] [0, 0, 0, 0, 0, 1] [1, 1, 0]
      = \<lparr>pos_proj = [Fin 1, Fin 1, Fin 1],
         x_u = Fin 1,
         y_u = Fin 1,
         projected_x = Fin 1748,
         projected_y = Fin 1748,
         out_residuals = [Fin 0, Fin 0],
         ret = True,
         r2 = Fin 2,
         r_coeff = Fin (156 / 125),
         x_d = Fin (156 / 125),
         y_d = Fin (156 / 125),
         r4 = Fin 4,
         r6 = Fin 8\<rparr>"
    by (simp add: Pinhole_Intrinsic_Radial_K3_operator_def ResidualErrorFunctor_Pinhole_Intrinsic_Radial_K3_def
        AngleAxisRotatePoint_zero Let_def round_T_small)
  have h2: "pos_proj (Pinhole_Intrinsic_Radial_K3_operator
        (ResidualErrorFunctor_Pinhole_Intrinsic_Radial_K3 [Fin 1748, Fin 1748])
        [1000, 500, 500, 1 / 10, 1 / 100, 1 / 1000] [0, 0, 0, 0, 0, 1] [1, 1, 0]) ! 2 \<noteq> Fin 0
      \<and> projected_x (Pinhole_Intrinsic_Radial_K3_operator
        (ResidualErrorFunctor_Pinhole_Intrinsic_Radial_K3 [Fin 1748, Fin 1748])
        [1000, 500, 500, 1 / 10, 1 / 100, 1 / 1000] [0, 0, 0, 0, 0, 1] [1, 1, 0]) = Fin 1748
      \<and> projected_y (Pinhole_Intrinsic_Radial_K3_operator
        (ResidualErrorFunctor_Pinhole_Intrinsic_Radial_K3 [Fin 1748, Fin 1748])
        [1000, 500, 500, 1 / 10, 1 / 100, 1 / 1000] [0, 0, 0, 0, 0, 1] [1, 1, 0]) = Fin 1748"
    unfolding f2 by simp
  have f3: "Pinhole_Rig_Intrinsic_operator
      (ResidualErrorFunctor_Pinhole_Rig_Intrinsic [Fin 2500, Fin 1500])
      [1000, 500, 500, 0, 0, 0, 1 / 2, 0, 0] [0, 0, 0, 0, 0, 1] [1, 1, 1]
      = \<lparr>pos_proj = [Fin 2, Fin 1, Fin 1],
         x_u = Fin 2,
         y_u = Fin 1,
         projected_x = Fin 2500,
         projected_y = Fin 1500,
         out_residuals = [Fin 0, Fin 0],
         ret = True,
         pos_rig = [1, 1, 1],
         rig_trans = [1 / 2, 0, 0]\<rparr>"
    by (simp add: Pinhole_Rig_Intrinsic_operator_def ResidualErrorFunctor_Pinhole_Rig_Intrinsic_def
        AngleAxisRotatePoint_zero Let_def round_T_small)
  have h3: "pos_proj (Pinhole_Rig_Intrinsic_operator
        (ResidualErrorFunctor_Pinhole_Rig_Intrinsic [Fin 2500, Fin 1500])
        [1000, 500, 500, 0, 0, 0, 1 / 2, 0, 0] [0, 0, 0, 0, 0, 1] [1, 1, 1]) ! 2 \<noteq> Fin 0
      \<and> projected_x (Pinhole_Rig_Intrinsic_operator
        (ResidualErrorFunctor_Pinhole_Rig_Intrinsic [Fin 2500, Fin 1500])
        [1000, 500, 500, 0, 0, 0, 1 / 2, 0, 0] [0, 0, 0, 0, 0, 1] [1, 1, 1]) = Fin 2500
      \<and> projected_y (Pinhole_Rig_Intrinsic_operator
        (ResidualErrorFunctor_Pinhole_Rig_Intrinsic [Fin 2500, Fin 1500])
        [1000, 500, 500, 0, 0, 0, 1 / 2, 0, 0] [0, 0, 0, 0, 0, 1] [1, 1, 1]) = Fin 1500"
    unfolding f3 by simp
  from h0 h1 h2 h3
    exact_projection_zero_residual [THEN conjunct1, THEN mp, OF h0]
    exact_projection_zero_residual [THEN conjunct2, THEN conjunct1, THEN mp, OF h1]
    exact_projection_zero_residual [THEN conjunct2, THEN conjunct2, THEN conjunct1, THEN mp, OF h2]
    exact_projection_zero_residual [THEN conjunct2, THEN conjunct2, THEN conjunct2, THEN mp, OF h3]
  show ?thesis by blast
qed

text \<open>
  Without the condition on the predicted pixel the statement fails. At the point
  \<open>(2 ^ 1023, 1, 1)\<close> with the identity pose the depth is 1 and every input is a finite
  double; \<open>focal * x_u\<close> overflows and the predicted pixel is \<open>(\<infinity>, 1500)\<close>. The functor
  constructed with that observation returns \<open>\<infinity> - \<infinity>\<close>, a NaN, as its first residual.
\<close>

theorem exact_projection_overflow_counterexample:
  "pos_proj (Pinhole_Intrinsic_operator
      (ResidualErrorFunctor_Pinhole_Intrinsic [PInf, Fin 1500])
      [1000, 500, 500] [0, 0, 0, 0, 0, 0] [2 ^ 1023, 1, 1]) ! 2 = Fin 1
   \<and> Fin 1 \<noteq> Fin 0
   \<and> projected_x (Pinhole_Intrinsic_operator
      (ResidualErrorFunctor_Pinhole_Intrinsic [PInf, Fin 1500])
      [1000, 500, 500] [0, 0, 0, 0, 0, 0] [2 ^ 1023, 1, 1]) = PInf
   \<and> projected_y (Pinhole_Intrinsic_operator
      (ResidualErrorFunctor_Pinhole_Intrinsic [PInf, Fin 1500])
      [1000, 500, 500] [0, 0, 0, 0, 0, 0] [2 ^ 1023, 1, 1]) = Fin 1500
   \<and> out_residuals (Pinhole_Intrinsic_operator
      (ResidualErrorFunctor_Pinhole_Intrinsic [PInf, Fin 1500])
      [1000, 500, 500] [0, 0, 0, 0, 0, 0] [2 ^ 1023, 1, 1]) = [NaN, Fin 0]
   \<and> out_residuals (Pinhole_Intrinsic_operator
      (ResidualErrorFunctor_Pinhole_Intrinsic [PInf, Fin 1500])
      [1000, 500, 500] [0, 0, 0, 0, 0, 0] [2 ^ 1023, 1, 1]) \<noteq> [Fin 0, Fin 0]"
proof -
  have c: "Pinhole_Intrinsic_operator
      (ResidualErrorFunctor_Pinhole_Intrinsic [PInf, Fin 1500])
      [1000, 500, 500] [0, 0, 0, 0, 0, 0] [2 ^ 1023, 1, 1]
      = \<lparr>pos_proj = [Fin (2 ^ 1023), Fin 1, Fin 1],
         x_u = Fin (2 ^ 1023),
         y_u = Fin 1,
         projected_x = PInf,
         projected_y = Fin 1500,
         out_residuals = [NaN, Fin 0],
         ret = True\<rparr>"
    by (simp add: Pinhole_Intrinsic_operator_def ResidualErrorFunctor_Pinhole_Intrinsic_def
        AngleAxisRotatePoint_zero Let_def round_T_exact round_T_over)
  show ?thesis
    unfolding c by (simp del: power_numeral)
qed

subsection \<open>The success flag\<close>

text \<open>
  C8. On every input, a zero projected depth included, the call operator of each of the
  four functors returns the flag true.
\<close>

theorem operator_always_returns_true:
  "ret (Pinhole_Intrinsic_operator f cam_K cam_Rt pos_3dpoint) = True
   \<and> ret (Pinhole_Intrinsic_Radial_K1_operator f cam_K cam_Rt pos_3dpoint) = True
   \<and> ret (Pinhole_Intrinsic_Radial_K3_operator f cam_K cam_Rt pos_3dpoint) = True
   \<and> ret (Pinhole_Rig_Intrinsic_operator f cam_K cam_Rt pos_3dpoint) = True"
  by (simp add: Pinhole_Intrinsic_operator_def Pinhole_Intrinsic_Radial_K1_operator_def
      Pinhole_Intrinsic_Radial_K3_operator_def Pinhole_Rig_Intrinsic_operator_def Let_def)

subsection \<open>The rotation primitive\<close>

text \<open>
  C9. Rotating any point by the zero axis-angle vector returns the point, and for every
  angle \<open>\<theta>\<close>, rotating \<open>(1, 0, 0)\<close> by the axis-angle vector \<open>(0, 0, \<theta>)\<close> returns
  \<open>(cos \<theta>, sin \<theta>, 0)\<close>.
\<close>

theorem AngleAxisRotatePoint_correct:
  "AngleAxisRotatePoint [0, 0, 0] [X, Y, Z] = [X, Y, Z]
   \<and> AngleAxisRotatePoint [0, 0, \<theta>] [1, 0, 0] = [cos \<theta>, sin \<theta>, 0]"
proof
  show "AngleAxisRotatePoint [0, 0, 0] [X, Y, Z] = [X, Y, Z]"
    by (simp add: AngleAxisRotatePoint_def)
  show "AngleAxisRotatePoint [0, 0, \<theta>] [1, 0, 0] = [cos \<theta>, sin \<theta>, 0]"
  proof (cases "\<theta> = 0")
    case True
    then show ?thesis by (simp add: AngleAxisRotatePoint_def)
  next
    case False
    have s: "sqrt (\<theta> * \<theta>) = \<bar>\<theta>\<bar>" by simp
    have c: "cos \<bar>\<theta>\<bar> = cos \<theta>" by (simp add: abs_if)
    have sn: "\<theta> * sin \<bar>\<theta>\<bar> / \<bar>\<theta>\<bar> = sin \<theta>"
      using False by (simp add: abs_if)
    from False have pos: "\<theta> * \<theta> > 0"
      using zero_less_power2 [of \<theta>] by (simp add: power2_eq_square)
    show ?thesis
      using pos by (simp add: AngleAxisRotatePoint_def Let_def s c sn del: real_sqrt_mult_self real_sqrt_abs2)
  qed
qed

end
